theory Spec2Isabelle
  imports Main "HOL-Library.Sublist" "HOL-Library.Word"
begin

section \<open>Python strings\<close>

text \<open>
  Header names and values, MIME types, base64 payload data and error messages are Python
  \<open>str\<close> values. They are modelled as Isabelle strings, whose characters are the code
  points 0 to 255; on that range \<open>str.lower()\<close> is the character-wise map below (ASCII
  capitals and the Latin-1 capitals except the multiplication sign move up by 32).
\<close>

definition lower_char :: "char \<Rightarrow> char" where
  "lower_char c =
     (let n = (of_char c :: nat)
      in if (65 \<le> n \<and> n \<le> 90) \<or> (192 \<le> n \<and> n \<le> 222 \<and> n \<noteq> 215)
         then char_of (n + 32) else c)"

definition str_lower :: "string \<Rightarrow> string" where
  "str_lower s = map lower_char s"

text \<open>\<open>s.split(sep)\<close> for a one-character separator: never the empty list.\<close>

fun str_split :: "char \<Rightarrow> string \<Rightarrow> string list" where
  "str_split sep [] = [[]]"
| "str_split sep (c # cs) =
     (if c = sep then [] # str_split sep cs
      else (case str_split sep cs of
              [] \<Rightarrow> [[c]]
            | w # ws \<Rightarrow> (c # w) # ws))"

text \<open>
  \<open>re.search\<close> of a literal, and \<open>pat in s\<close> on two strings: the literal occurs
  somewhere in the string.
\<close>

fun contains :: "'a list \<Rightarrow> 'a list \<Rightarrow> bool" where
  "contains pat [] = (pat = [])"
| "contains pat (c # cs) = (prefix pat (c # cs) \<or> contains pat cs)"

text \<open>
  \<open>re.search(r"<(.+?)>", s)\<close>, returning group 1. The dot matches every character but
  the newline; the lazy \<open>.+?\<close> takes one character and then stops at the first closing bracket.
  \<open>lazy_dot_gt\<close> is the part after the first character of the group, \<open>match_angle\<close> the
  match right after an opening bracket, \<open>re_search_angle\<close> the leftmost start that matches.
\<close>

fun lazy_dot_gt :: "string \<Rightarrow> string option" where
  "lazy_dot_gt [] = None"
| "lazy_dot_gt (c # cs) =
     (if c = CHR ''>'' then Some []
      else if c = CHR 0x0A then None
      else map_option ((#) c) (lazy_dot_gt cs))"

fun match_angle :: "string \<Rightarrow> string option" where
  "match_angle [] = None"
| "match_angle (c # cs) =
     (if c = CHR 0x0A then None else map_option ((#) c) (lazy_dot_gt cs))"

fun re_search_angle :: "string \<Rightarrow> string option" where
  "re_search_angle [] = None"
| "re_search_angle (c # cs) =
     (if c = CHR ''<''
      then (case match_angle cs of
              Some g \<Rightarrow> Some g
            | None \<Rightarrow> re_search_angle cs)
      else re_search_angle cs)"

section \<open>Sender analysis\<close>

record header =
  header_name :: string
  header_value :: string

record sender_info =
  sender :: string
  domain :: string
  flags :: "string list"

text \<open>\<open>next((h["value"] for h in headers if h["name"].lower() == "from"), "")\<close>\<close>

fun find_from :: "header list \<Rightarrow> string" where
  "find_from [] = ''''"
| "find_from (h # hs) =
     (if str_lower (header_name h) = ''from'' then header_value h else find_from hs)"

definition typosquat_rule :: "string \<Rightarrow> bool" where
  "typosquat_rule d =
     (contains ''paypa1'' d \<or> contains ''netfl1x'' d
      \<or> contains ''g00gle'' d \<or> contains ''faceb00k'' d)"

definition tld_rule :: "string \<Rightarrow> bool" where
  "tld_rule d = (last (str_split CHR ''.'' d) \<in> set [''xyz'', ''top'', ''ru'', ''cn''])"

definition subdomain_rule :: "string \<Rightarrow> bool" where
  "subdomain_rule d = (count_list d CHR ''.'' > 3)"

definition whitelist :: "string list" where
  "whitelist = [''google.com'', ''microsoft.com'', ''github.com'', ''apple.com'', ''linkedin.com'']"

definition whitelist_rule :: "string \<Rightarrow> bool" where
  "whitelist_rule d = (d \<in> set whitelist)"

text \<open>
  The whitelist flag of the source starts with the check mark U+2705, which is beyond the
  character range of the model; it is written as its three UTF-8 bytes. The flag is only
  ever produced, never inspected.
\<close>

definition whitelisted_flag :: string where
  "whitelisted_flag = CHR 0xE2 # CHR 0x9C # CHR 0x85 # '' Whitelisted domain''"

definition sender_email :: "string \<Rightarrow> string" where
  "sender_email s = (case re_search_angle s of Some g \<Rightarrow> g | None \<Rightarrow> s)"

definition email_domain :: "string \<Rightarrow> string" where
  "email_domain email =
     (if CHR ''@'' \<in> set email then str_lower (last (str_split CHR ''@'' email))
      else ''unknown'')"

definition rule_flags :: "string \<Rightarrow> string list" where
  "rule_flags d =
     (if typosquat_rule d then [''Possible typosquatting''] else [])
     @ (if tld_rule d then [''Suspicious TLD''] else [])
     @ (if subdomain_rule d then [''Too many subdomains''] else [])
     @ (if whitelist_rule d then [whitelisted_flag] else [])"

definition analyze_sender :: "header list \<Rightarrow> sender_info" where
  "analyze_sender headers =
     (let sender = find_from headers;
          email = sender_email sender;
          domain = email_domain email;
          flags = rule_flags domain
      in \<lparr>sender = email, domain = domain,
          flags = (if flags \<noteq> [] then flags else [''None''])\<rparr>)"

subsection \<open>What the specification says about the sender\<close>






section \<open>Exceptions, bytes and message text\<close>

text \<open>
  Message text (a decoded body, a snippet, a string of a JSON document) is a list of
  Unicode code points, since decoding produces code points beyond 255. The exceptions are
  the subclasses of \<open>Exception\<close> that the modelled code and its libraries raise;
  \<open>OtherException\<close> stands for any exception of a library outside this model (the mail
  service, the classifier), with its message.

  \<open>urlsafe_b64decode\<close> follows the standard library: a string that is not ASCII is a
  \<open>ValueError\<close>; minus and underscore stand for plus and slash; characters outside the
  alphabet are skipped; decoding stops at the padding that completes a group of four; an
  incomplete last group is a \<open>binascii.Error\<close>. \<open>utf8_decode_ignore\<close> is
  \<open>bytes.decode("utf-8", errors="ignore")\<close>: well-formed sequences give their code point,
  a byte that starts none is dropped.
\<close>

type_synonym byte = "8 word"
type_synonym unicode = "nat list"

datatype error =
    KeyError string
  | ValueError string
  | TypeError string
  | BinasciiError string
  | OtherException string

fun show_nat :: "nat \<Rightarrow> string" where
  "show_nat n =
     (if n < 10 then [char_of (48 + n)]
      else show_nat (n div 10) @ [char_of (48 + n mod 10)])"

definition b64_value :: "char \<Rightarrow> nat option" where
  "b64_value c =
     (let n = (of_char c :: nat)
      in if 65 \<le> n \<and> n \<le> 90 then Some (n - 65)
         else if 97 \<le> n \<and> n \<le> 122 then Some (n - 71)
         else if 48 \<le> n \<and> n \<le> 57 then Some (n + 4)
         else if c = CHR ''+'' \<or> c = CHR ''-'' then Some 62
         else if c = CHR ''/'' \<or> c = CHR ''_'' then Some 63
         else None)"

definition emit :: "nat \<Rightarrow> error + byte list \<Rightarrow> error + byte list" where
  "emit b r = (case r of Inl e \<Rightarrow> Inl e | Inr bs \<Rightarrow> Inr (of_nat b # bs))"

fun a2b_base64 :: "nat \<Rightarrow> nat \<Rightarrow> nat \<Rightarrow> nat \<Rightarrow> string \<Rightarrow> error + byte list" where
  "a2b_base64 quad_pos leftchar pads written [] =
     (if quad_pos = 0 then Inr []
      else if quad_pos = 1
      then Inl (BinasciiError (''Invalid base64-encoded string: number of data characters (''
             @ show_nat (written div 3 * 4 + 1)
             @ '') cannot be 1 more than a multiple of 4''))
      else Inl (BinasciiError ''Incorrect padding''))"
| "a2b_base64 quad_pos leftchar pads written (c # cs) =
     (if c = CHR ''='' then
        (if quad_pos \<ge> 2 \<and> quad_pos + (pads + 1) \<ge> 4 then Inr []
         else a2b_base64 quad_pos leftchar (if quad_pos \<ge> 2 then pads + 1 else pads) written cs)
      else
        (case b64_value c of
           None \<Rightarrow> a2b_base64 quad_pos leftchar pads written cs
         | Some v \<Rightarrow>
             (if quad_pos = 0 then a2b_base64 1 v 0 written cs
              else if quad_pos = 1
              then emit ((leftchar * 4 + v div 16) mod 256)
                     (a2b_base64 2 (v mod 16) 0 (written + 1) cs)
              else if quad_pos = 2
              then emit ((leftchar * 16 + v div 4) mod 256)
                     (a2b_base64 3 (v mod 4) 0 (written + 1) cs)
              else emit ((leftchar * 64 + v) mod 256)
                     (a2b_base64 0 0 0 (written + 1) cs))))"

definition urlsafe_b64decode :: "string \<Rightarrow> error + byte list" where
  "urlsafe_b64decode s =
     (if \<exists>c \<in> set s. (of_char c :: nat) > 127
      then Inl (ValueError ''string argument should contain only ASCII characters'')
      else a2b_base64 0 0 0 0 s)"

definition is_cont :: "nat \<Rightarrow> bool" where
  "is_cont b = (0x80 \<le> b \<and> b \<le> 0xBF)"

fun utf8_decode_ignore :: "byte list \<Rightarrow> unicode" where
  "utf8_decode_ignore [] = []"
| "utf8_decode_ignore (b0 # bs) =
     (let n0 = unat b0 in
      if n0 < 0x80 then n0 # utf8_decode_ignore bs
      else if 0xC2 \<le> n0 \<and> n0 \<le> 0xDF then
        (case bs of
           b1 # r1 \<Rightarrow>
             if is_cont (unat b1)
             then ((n0 - 0xC0) * 64 + (unat b1 - 0x80)) # utf8_decode_ignore r1
             else utf8_decode_ignore bs
         | _ \<Rightarrow> utf8_decode_ignore bs)
      else if 0xE0 \<le> n0 \<and> n0 \<le> 0xEF then
        (case bs of
           b1 # b2 # r2 \<Rightarrow>
             if (if n0 = 0xE0 then 0xA0 \<le> unat b1 \<and> unat b1 \<le> 0xBF
                 else if n0 = 0xED then 0x80 \<le> unat b1 \<and> unat b1 \<le> 0x9F
                 else is_cont (unat b1))
                \<and> is_cont (unat b2)
             then ((n0 - 0xE0) * 4096 + (unat b1 - 0x80) * 64 + (unat b2 - 0x80))
                    # utf8_decode_ignore r2
             else utf8_decode_ignore bs
         | _ \<Rightarrow> utf8_decode_ignore bs)
      else if 0xF0 \<le> n0 \<and> n0 \<le> 0xF4 then
        (case bs of
           b1 # b2 # b3 # r3 \<Rightarrow>
             if (if n0 = 0xF0 then 0x90 \<le> unat b1 \<and> unat b1 \<le> 0xBF
                 else if n0 = 0xF4 then 0x80 \<le> unat b1 \<and> unat b1 \<le> 0x8F
                 else is_cont (unat b1))
                \<and> is_cont (unat b2) \<and> is_cont (unat b3)
             then ((n0 - 0xF0) * 262144 + (unat b1 - 0x80) * 4096
                    + (unat b2 - 0x80) * 64 + (unat b3 - 0x80))
                    # utf8_decode_ignore r3
             else utf8_decode_ignore bs
         | _ \<Rightarrow> utf8_decode_ignore bs)
      else utf8_decode_ignore bs)"

text \<open>\<open>str(e)\<close>: a \<open>KeyError\<close> prints its key quoted, the others their message.\<close>

fun str_error :: "error \<Rightarrow> string" where
  "str_error (KeyError k) = CHR 0x27 # k @ [CHR 0x27]"
| "str_error (ValueError m) = m"
| "str_error (TypeError m) = m"
| "str_error (BinasciiError m) = m"
| "str_error (OtherException m) = m"

text \<open>A string literal of the source as message text.\<close>

definition ustr :: "string \<Rightarrow> unicode" where
  "ustr s = map of_char s"

text \<open>\<open>base64.urlsafe_b64decode(data).decode("utf-8", errors="ignore")\<close>\<close>

definition decode_data :: "string \<Rightarrow> error + unicode" where
  "decode_data d =
     (case urlsafe_b64decode d of
        Inl e \<Rightarrow> Inl e
      | Inr bs \<Rightarrow> Inr (utf8_decode_ignore bs))"

section \<open>Message payloads and body extraction\<close>

text \<open>
  A payload is the dictionary of the mail API: each of its keys may be absent, which is
  what the source tests with \<open>in\<close> and \<open>get\<close>, and what makes a plain subscript raise
  \<open>KeyError\<close>.
\<close>

record part_body =
  data :: "string option"

datatype payload =
  Payload (mimeType: "string option") (headers: "header list option")
    (body: "part_body option") (parts: "payload list option")

text \<open>
  The loop over \<open>payload["parts"]\<close>: \<open>Inr None\<close> when the loop ends without returning.
\<close>

fun extract_parts :: "payload list \<Rightarrow> error + unicode option" where
  "extract_parts [] = Inr None"
| "extract_parts (part # rest) =
     (case mimeType part of
        None \<Rightarrow> Inl (KeyError ''mimeType'')
      | Some m \<Rightarrow>
          if m = ''text/plain''
          then (case body part of
                  None \<Rightarrow> Inl (KeyError ''body'')
                | Some b \<Rightarrow>
                    (case decode_data (case data b of None \<Rightarrow> [] | Some d \<Rightarrow> d) of
                       Inl e \<Rightarrow> Inl e
                     | Inr t \<Rightarrow> Inr (Some t)))
          else extract_parts rest)"

text \<open>The second \<open>if\<close> of \<open>extract_body\<close> and the final \<open>return ""\<close>.\<close>

definition top_level_body :: "payload \<Rightarrow> error + unicode" where
  "top_level_body payload =
     (case body payload of
        None \<Rightarrow> Inr []
      | Some b \<Rightarrow> (case data b of None \<Rightarrow> Inr [] | Some d \<Rightarrow> decode_data d))"

definition extract_body :: "payload \<Rightarrow> error + unicode" where
  "extract_body payload =
     (case (case parts payload of None \<Rightarrow> Inr None | Some ps \<Rightarrow> extract_parts ps) of
        Inl e \<Rightarrow> Inl e
      | Inr (Some t) \<Rightarrow> Inr t
      | Inr None \<Rightarrow> top_level_body payload)"

subsection \<open>What the specification says about body extraction\<close>

text \<open>
  The specification describes a depth-first search of the whole part tree, the payload
  itself being the root, for the first part of type \<open>text/plain\<close>, whose data is decoded;
  the empty string when the tree has no such part.
\<close>

fun dfs_plain :: "payload \<Rightarrow> payload option"
  and dfs_plain_list :: "payload list \<Rightarrow> payload option" where
  "dfs_plain (Payload m h b ps) =
     (if m = Some ''text/plain'' then Some (Payload m h b ps)
      else (case ps of None \<Rightarrow> None | Some l \<Rightarrow> dfs_plain_list l))"
| "dfs_plain_list [] = None"
| "dfs_plain_list (p # l) =
     (case dfs_plain p of Some r \<Rightarrow> Some r | None \<Rightarrow> dfs_plain_list l)"


section \<open>Request handlers\<close>

text \<open>
  The value \<open>request.get_json()\<close> hands to the handler: any parsed JSON document, or
  \<open>None\<close>. Numbers are integers here; a float behaves as an integer does in every
  operation below (false when zero, neither iterable nor subscriptable).
\<close>

datatype pyval =
    PNone
  | PBool bool
  | PInt int
  | PStr unicode
  | PList "pyval list"
  | PDict "(unicode \<times> pyval) list"

text \<open>\<open>not data\<close> is the negation of the value's truth.\<close>

fun truthy :: "pyval \<Rightarrow> bool" where
  "truthy PNone = False"
| "truthy (PBool b) = b"
| "truthy (PInt n) = (n \<noteq> 0)"
| "truthy (PStr s) = (s \<noteq> [])"
| "truthy (PList xs) = (xs \<noteq> [])"
| "truthy (PDict kvs) = (kvs \<noteq> [])"

text \<open>\<open>key in data\<close> for a string literal \<open>key\<close>.\<close>

fun py_in :: "string \<Rightarrow> pyval \<Rightarrow> error + bool" where
  "py_in key (PDict kvs) = Inr (ustr key \<in> set (map fst kvs))"
| "py_in key (PList xs) = Inr (PStr (ustr key) \<in> set xs)"
| "py_in key (PStr s) = Inr (contains (ustr key) s)"
| "py_in key PNone =
     Inl (TypeError (''argument of type '' @ CHR 0x27 # ''NoneType'' @ CHR 0x27 # '' is not iterable''))"
| "py_in key (PBool b) =
     Inl (TypeError (''argument of type '' @ CHR 0x27 # ''bool'' @ CHR 0x27 # '' is not iterable''))"
| "py_in key (PInt n) =
     Inl (TypeError (''argument of type '' @ CHR 0x27 # ''int'' @ CHR 0x27 # '' is not iterable''))"

text \<open>\<open>data[key]\<close> for a string literal \<open>key\<close>.\<close>

fun py_getitem :: "pyval \<Rightarrow> string \<Rightarrow> error + pyval" where
  "py_getitem (PDict kvs) key =
     (case map_of kvs (ustr key) of None \<Rightarrow> Inl (KeyError key) | Some v \<Rightarrow> Inr v)"
| "py_getitem (PList xs) key =
     Inl (TypeError ''list indices must be integers or slices, not str'')"
| "py_getitem (PStr s) key =
     Inl (TypeError (''string indices must be integers, not '' @ CHR 0x27 # ''str'' @ [CHR 0x27]))"
| "py_getitem PNone key =
     Inl (TypeError (CHR 0x27 # ''NoneType'' @ CHR 0x27 # '' object is not subscriptable''))"
| "py_getitem (PBool b) key =
     Inl (TypeError (CHR 0x27 # ''bool'' @ CHR 0x27 # '' object is not subscriptable''))"
| "py_getitem (PInt n) key =
     Inl (TypeError (CHR 0x27 # ''int'' @ CHR 0x27 # '' object is not subscriptable''))"

text \<open>
  What the handlers call outside themselves. The classifier \<open>predict_body\<close> runs a
  pretrained model on floating-point tensors; the handlers only pass its result on, so it
  is a parameter here, with a result type \<open>'r\<close> of its own, and it may raise. The mail
  service is one answer for each of its three calls. \<open>html.unescape\<close> is a library
  function on strings.
\<close>

record message_ref =
  ref_id :: string

record list_response =
  messages :: "message_ref list option"

record message =
  snippet :: "unicode option"
  payload :: "payload option"

record 'r externals =
  predict_body :: "pyval \<Rightarrow> error + 'r"
  get_gmail_service :: "error + unit"
  list_unread :: "error + list_response"
  get_message :: "string \<Rightarrow> error + message"
  html_unescape :: "unicode \<Rightarrow> unicode"

text \<open>The calls a handler makes, in order.\<close>

datatype call =
    GetGmailService
  | ListUnread
  | GetMessage string
  | PredictBody pyval

text \<open>The JSON document a handler answers with, and its status code.\<close>

datatype 'r reply =
    ErrorReply string
  | PredictionReply 'r
  | GmailReply unicode 'r sender_info

datatype 'r response = Response (status: nat) (reply: "'r reply")

text \<open>
  \<open>POST /predict\<close>, on the value \<open>json\<close> that \<open>request.get_json()\<close> returned. The handler
  has no \<open>try\<close>: an exception leaves it (\<open>Inl\<close>), and the framework answers in its place
  with a 500.
\<close>

definition predict :: "'r externals \<Rightarrow> pyval \<Rightarrow> call list \<times> (error + 'r response)" where
  "predict ext json =
     (if \<not> truthy json then ([], Inr (Response 400 (ErrorReply ''No text provided'')))
      else
        (case py_in ''text'' json of
           Inl e \<Rightarrow> ([], Inl e)
         | Inr False \<Rightarrow> ([], Inr (Response 400 (ErrorReply ''No text provided'')))
         | Inr True \<Rightarrow>
             (case py_getitem json ''text'' of
                Inl e \<Rightarrow> ([], Inl e)
              | Inr txt \<Rightarrow>
                  (case predict_body ext txt of
                     Inl e \<Rightarrow> ([PredictBody txt], Inl e)
                   | Inr body_result \<Rightarrow>
                       ([PredictBody txt], Inr (Response 200 (PredictionReply body_result)))))))"

text \<open>\<open>GET /fetch_gmail\<close>: the body of the \<open>try\<close> block.\<close>

definition fetch_gmail_try :: "'r externals \<Rightarrow> call list \<times> (error + 'r response)" where
  "fetch_gmail_try ext =
     (case get_gmail_service ext of
        Inl e \<Rightarrow> ([GetGmailService], Inl e)
      | Inr service \<Rightarrow>
     (case list_unread ext of
        Inl e \<Rightarrow> ([GetGmailService, ListUnread], Inl e)
      | Inr results \<Rightarrow>
     (case (case messages results of None \<Rightarrow> [] | Some ms \<Rightarrow> ms) of
        [] \<Rightarrow> ([GetGmailService, ListUnread],
                Inr (Response 404 (ErrorReply ''No unread emails found'')))
      | m # _ \<Rightarrow>
     (case get_message ext (ref_id m) of
        Inl e \<Rightarrow> ([GetGmailService, ListUnread, GetMessage (ref_id m)], Inl e)
      | Inr msg \<Rightarrow>
     (let snippet_text = (case snippet msg of None \<Rightarrow> [] | Some s \<Rightarrow> s) in
     (case payload msg of
        None \<Rightarrow> ([GetGmailService, ListUnread, GetMessage (ref_id m)], Inl (KeyError ''payload''))
      | Some p \<Rightarrow>
     (let header_list = (case headers p of None \<Rightarrow> [] | Some hs \<Rightarrow> hs) in
     (case extract_body p of
        Inl e \<Rightarrow> ([GetGmailService, ListUnread, GetMessage (ref_id m)], Inl e)
      | Inr body_text \<Rightarrow>
     (let info = analyze_sender header_list;
          txt = PStr (if body_text \<noteq> [] then body_text else snippet_text) in
     (case predict_body ext txt of
        Inl e \<Rightarrow>
          ([GetGmailService, ListUnread, GetMessage (ref_id m), PredictBody txt], Inl e)
      | Inr body_result \<Rightarrow>
          ([GetGmailService, ListUnread, GetMessage (ref_id m), PredictBody txt],
           Inr (Response 200
                  (GmailReply (take 80 (html_unescape ext snippet_text) @ ustr ''...'')
                     body_result info)))))))))))))"

text \<open>The handler: \<open>except Exception as e\<close> turns what the block raised into a 500.\<close>

definition fetch_gmail :: "'r externals \<Rightarrow> call list \<times> 'r response" where
  "fetch_gmail ext =
     (case fetch_gmail_try ext of
        (calls, Inl e) \<Rightarrow> (calls, Response 500 (ErrorReply (str_error e)))
      | (calls, Inr r) \<Rightarrow> (calls, r))"

section \<open>Properties of the sender analysis\<close>

text \<open>\<open>contains\<close> is the search for a contiguous occurrence.\<close>

lemma contains_iff: "contains pat s \<longleftrightarrow> (\<exists>pre post. s = pre @ pat @ post)"
proof (induction s)
  case Nil
  then show ?case by auto
next
  case (Cons c cs)
  have "(\<exists>pre post. c # cs = pre @ pat @ post) \<longleftrightarrow> sublist pat (c # cs)"
    by (simp add: sublist_def)
  also have "\<dots> \<longleftrightarrow> prefix pat (c # cs) \<or> sublist pat cs"
    by (rule sublist_Cons_right)
  also have "\<dots> \<longleftrightarrow> prefix pat (c # cs) \<or> contains pat cs"
    using Cons.IH by (simp add: sublist_def)
  finally show ?case by simp
qed

























lemma flags_analyze_sender:
  "flags (analyze_sender hs) =
     (if rule_flags (domain (analyze_sender hs)) \<noteq> []
      then rule_flags (domain (analyze_sender hs)) else [''None''])"
  by (simp add: analyze_sender_def Let_def)



lemma rule_flags_google: "rule_flags ''google.com'' = [whitelisted_flag]" by code_simp
lemma rule_flags_microsoft: "rule_flags ''microsoft.com'' = [whitelisted_flag]" by code_simp
lemma rule_flags_github: "rule_flags ''github.com'' = [whitelisted_flag]" by code_simp
lemma rule_flags_apple: "rule_flags ''apple.com'' = [whitelisted_flag]" by code_simp
lemma rule_flags_linkedin: "rule_flags ''linkedin.com'' = [whitelisted_flag]" by code_simp
lemma rule_flags_paypa1: "rule_flags ''mail.paypa1.com'' = [''Possible typosquatting'']" by code_simp
lemma rule_flags_xyz:
  "rule_flags ''foo.bar.baz.qux.xyz'' = [''Suspicious TLD'', ''Too many subdomains'']"
  by code_simp

lemma whitelist_rule_flags: "whitelist_rule d \<Longrightarrow> rule_flags d = [whitelisted_flag]"
  unfolding whitelist_rule_def whitelist_def
  using rule_flags_google rule_flags_microsoft rule_flags_github rule_flags_apple
    rule_flags_linkedin
  by auto

lemma whitelisted_flag_rule:
  "whitelisted_flag \<in> set (rule_flags d) \<Longrightarrow> whitelist_rule d"
  by (auto simp: rule_flags_def whitelisted_flag_def split: if_splits)

lemma rule_flags_empty_iff:
  "rule_flags d = [] \<longleftrightarrow>
     \<not> typosquat_rule d \<and> \<not> tld_rule d \<and> \<not> subdomain_rule d \<and> \<not> whitelist_rule d"
  by (simp add: rule_flags_def)

lemma whitelisted_flag_in_flags:
  "whitelisted_flag \<in> set (flags (analyze_sender hs)) \<Longrightarrow>
     whitelist_rule (domain (analyze_sender hs))"
  by (auto simp: flags_analyze_sender whitelisted_flag_def split: if_splits
      intro: whitelisted_flag_rule[unfolded whitelisted_flag_def])

text \<open>
  Claim C4. \<open>analyze_sender\<close> is a function of the header list alone (the source reads
  nothing but its argument and literals, so equal header lists give equal results), its
  flag list is never empty, and when none of the four rules fires on the domain the flag
  list is exactly the one-element list holding \<open>None\<close>.
\<close>

theorem analyze_sender_pure_flags_nonempty:
  "(hs' = hs \<longrightarrow> analyze_sender hs' = analyze_sender hs)
   \<and> flags (analyze_sender hs) \<noteq> []
   \<and> (\<not> typosquat_rule (domain (analyze_sender hs))
        \<and> \<not> tld_rule (domain (analyze_sender hs))
        \<and> \<not> subdomain_rule (domain (analyze_sender hs))
        \<and> \<not> whitelist_rule (domain (analyze_sender hs))
      \<longrightarrow> flags (analyze_sender hs) = [''None''])"
  by (simp add: flags_analyze_sender rule_flags_empty_iff)

text \<open>
  The theorem at the empty header list: the domain is \<open>unknown\<close>, no rule fires, and the
  flags are the sentinel.
\<close>

theorem analyze_sender_pure_flags_nonempty_witness:
  "\<not> typosquat_rule (domain (analyze_sender []))
   \<and> \<not> tld_rule (domain (analyze_sender []))
   \<and> \<not> subdomain_rule (domain (analyze_sender []))
   \<and> \<not> whitelist_rule (domain (analyze_sender []))
   \<and> flags (analyze_sender []) = [''None'']"
proof -
  have h: "\<not> typosquat_rule (domain (analyze_sender []))
   \<and> \<not> tld_rule (domain (analyze_sender []))
   \<and> \<not> subdomain_rule (domain (analyze_sender []))
   \<and> \<not> whitelist_rule (domain (analyze_sender []))"
    by code_simp
  from analyze_sender_pure_flags_nonempty[of "[]" "[]"] h show ?thesis by blast
qed

text \<open>
  Claim C6. When the domain is \<open>mail.paypa1.com\<close> the flags include the typosquatting flag;
  when it is \<open>foo.bar.baz.qux.xyz\<close> they include both the suspicious-TLD flag and the
  too-many-subdomains flag; when it is \<open>github.com\<close> they include the whitelist flag and
  none of the three suspicion flags.
\<close>

theorem analyze_sender_example_domains:
  "(domain (analyze_sender hs) = ''mail.paypa1.com''
      \<longrightarrow> ''Possible typosquatting'' \<in> set (flags (analyze_sender hs)))
   \<and> (domain (analyze_sender hs) = ''foo.bar.baz.qux.xyz''
      \<longrightarrow> ''Suspicious TLD'' \<in> set (flags (analyze_sender hs))
        \<and> ''Too many subdomains'' \<in> set (flags (analyze_sender hs)))
   \<and> (domain (analyze_sender hs) = ''github.com''
      \<longrightarrow> whitelisted_flag \<in> set (flags (analyze_sender hs))
        \<and> ''Possible typosquatting'' \<notin> set (flags (analyze_sender hs))
        \<and> ''Suspicious TLD'' \<notin> set (flags (analyze_sender hs))
        \<and> ''Too many subdomains'' \<notin> set (flags (analyze_sender hs)))"
proof (intro conjI impI)
  assume d: "domain (analyze_sender hs) = ''mail.paypa1.com''"
  show "''Possible typosquatting'' \<in> set (flags (analyze_sender hs))"
    by (simp add: flags_analyze_sender d rule_flags_paypa1)
next
  assume d: "domain (analyze_sender hs) = ''foo.bar.baz.qux.xyz''"
  show "''Suspicious TLD'' \<in> set (flags (analyze_sender hs))"
    by (simp add: flags_analyze_sender d rule_flags_xyz)
  show "''Too many subdomains'' \<in> set (flags (analyze_sender hs))"
    by (simp add: flags_analyze_sender d rule_flags_xyz)
next
  assume d: "domain (analyze_sender hs) = ''github.com''"
  have f: "flags (analyze_sender hs) = [whitelisted_flag]"
    by (simp add: flags_analyze_sender d rule_flags_github)
  show "whitelisted_flag \<in> set (flags (analyze_sender hs))" by (simp add: f)
  show "''Possible typosquatting'' \<notin> set (flags (analyze_sender hs))"
    by (simp add: f whitelisted_flag_def)
  show "''Suspicious TLD'' \<notin> set (flags (analyze_sender hs))"
    by (simp add: f whitelisted_flag_def)
  show "''Too many subdomains'' \<notin> set (flags (analyze_sender hs))"
    by (simp add: f whitelisted_flag_def)
qed

text \<open>
  The theorem at three \<open>From\<close> headers, one for each of the three domains.
\<close>

theorem analyze_sender_example_domains_witness:
  "''Possible typosquatting''
      \<in> set (flags (analyze_sender
           [\<lparr>header_name = ''From'', header_value = ''PayPal <service@mail.paypa1.com>''\<rparr>]))
   \<and> ''Suspicious TLD''
      \<in> set (flags (analyze_sender
           [\<lparr>header_name = ''From'', header_value = ''promo@foo.bar.baz.qux.xyz''\<rparr>]))
   \<and> ''Too many subdomains''
      \<in> set (flags (analyze_sender
           [\<lparr>header_name = ''From'', header_value = ''promo@foo.bar.baz.qux.xyz''\<rparr>]))
   \<and> whitelisted_flag
      \<in> set (flags (analyze_sender
           [\<lparr>header_name = ''From'', header_value = ''<noreply@GitHub.com>''\<rparr>]))
   \<and> ''Suspicious TLD''
      \<notin> set (flags (analyze_sender
           [\<lparr>header_name = ''From'', header_value = ''<noreply@GitHub.com>''\<rparr>]))"
proof -
  let ?a = "[\<lparr>header_name = ''From'', header_value = ''PayPal <service@mail.paypa1.com>''\<rparr>]"
  let ?b = "[\<lparr>header_name = ''From'', header_value = ''promo@foo.bar.baz.qux.xyz''\<rparr>]"
  let ?c = "[\<lparr>header_name = ''From'', header_value = ''<noreply@GitHub.com>''\<rparr>]"
  have a: "domain (analyze_sender ?a) = ''mail.paypa1.com''" by code_simp
  have b: "domain (analyze_sender ?b) = ''foo.bar.baz.qux.xyz''" by code_simp
  have c: "domain (analyze_sender ?c) = ''github.com''" by code_simp
  from analyze_sender_example_domains[of ?a] analyze_sender_example_domains[of ?b]
    analyze_sender_example_domains[of ?c] a b c
  show ?thesis by blast
qed

text \<open>
  Claim C7 as stated says that some header list yields both the whitelist flag and a
  suspicion flag. No header list does: the whitelist rule is an exact match against five
  domains, and on none of them a suspicion rule fires.
\<close>

theorem whitelist_and_suspicion_never_together:
  "\<not> (\<exists>hs. whitelisted_flag \<in> set (flags (analyze_sender hs))
        \<and> (''Possible typosquatting'' \<in> set (flags (analyze_sender hs))
           \<or> ''Suspicious TLD'' \<in> set (flags (analyze_sender hs))
           \<or> ''Too many subdomains'' \<in> set (flags (analyze_sender hs))))"
proof
  assume "\<exists>hs. whitelisted_flag \<in> set (flags (analyze_sender hs))
        \<and> (''Possible typosquatting'' \<in> set (flags (analyze_sender hs))
           \<or> ''Suspicious TLD'' \<in> set (flags (analyze_sender hs))
           \<or> ''Too many subdomains'' \<in> set (flags (analyze_sender hs)))"
  then obtain hs where w: "whitelisted_flag \<in> set (flags (analyze_sender hs))"
    and s: "''Possible typosquatting'' \<in> set (flags (analyze_sender hs))
           \<or> ''Suspicious TLD'' \<in> set (flags (analyze_sender hs))
           \<or> ''Too many subdomains'' \<in> set (flags (analyze_sender hs))"
    by blast
  from w have "whitelist_rule (domain (analyze_sender hs))"
    by (rule whitelisted_flag_in_flags)
  then have "rule_flags (domain (analyze_sender hs)) = [whitelisted_flag]"
    by (rule whitelist_rule_flags)
  then have "flags (analyze_sender hs) = [whitelisted_flag]"
    by (simp add: flags_analyze_sender)
  with s show False by (simp add: whitelisted_flag_def)
qed

text \<open>
  Claim C7, amended. With the whitelist of the source, the whitelist flag and the suspicion
  flags exclude each other: whenever the flags hold the whitelist flag, they hold nothing
  else, and the domain is one of the five whitelisted domains.
\<close>

theorem whitelisted_flag_alone:
  "whitelisted_flag \<in> set (flags (analyze_sender hs)) \<Longrightarrow>
     flags (analyze_sender hs) = [whitelisted_flag]
     \<and> domain (analyze_sender hs) \<in> set whitelist"
proof -
  assume "whitelisted_flag \<in> set (flags (analyze_sender hs))"
  then have w: "whitelist_rule (domain (analyze_sender hs))"
    by (rule whitelisted_flag_in_flags)
  then have "rule_flags (domain (analyze_sender hs)) = [whitelisted_flag]"
    by (rule whitelist_rule_flags)
  then have "flags (analyze_sender hs) = [whitelisted_flag]"
    by (simp add: flags_analyze_sender)
  with w show ?thesis by (simp add: whitelist_rule_def)
qed

text \<open>
  The amended claim at a \<open>From\<close> header of \<open>github.com\<close>.
\<close>

theorem whitelisted_flag_alone_witness:
  "whitelisted_flag
      \<in> set (flags (analyze_sender
           [\<lparr>header_name = ''From'', header_value = ''Octocat <noreply@github.com>''\<rparr>]))
   \<and> flags (analyze_sender
        [\<lparr>header_name = ''From'', header_value = ''Octocat <noreply@github.com>''\<rparr>])
      = [whitelisted_flag]"
proof -
  let ?hs = "[\<lparr>header_name = ''From'', header_value = ''Octocat <noreply@github.com>''\<rparr>]"
  have h: "whitelisted_flag \<in> set (flags (analyze_sender ?hs))" by code_simp
  from whitelisted_flag_alone[OF h] h show ?thesis by blast
qed

section \<open>Properties of body extraction\<close>


lemma utf8_decode_ignore_ascii:
  "\<forall>b\<in>set bs. unat b < 0x80 \<Longrightarrow> utf8_decode_ignore bs = map unat bs"
  by (induction bs) (simp_all add: Let_def)












section \<open>Properties of the request handlers\<close>

lemma predict_none:
  "predict ext PNone = ([], Inr (Response 400 (ErrorReply ''No text provided'')))"
  by (simp add: predict_def)

lemma predict_empty_object:
  "predict ext (PDict []) = ([], Inr (Response 400 (ErrorReply ''No text provided'')))"
  by (simp add: predict_def)

lemma predict_missing_text:
  "ustr ''text'' \<notin> fst ` set kvs \<Longrightarrow>
     predict ext (PDict kvs) = ([], Inr (Response 400 (ErrorReply ''No text provided'')))"
  by (simp add: predict_def)

lemma predict_with_text:
  "map_of kvs (ustr ''text'') = Some txt \<Longrightarrow> predict_body ext txt = Inr r \<Longrightarrow>
     predict ext (PDict kvs) = ([PredictBody txt], Inr (Response 200 (PredictionReply r)))"
proof -
  assume m: "map_of kvs (ustr ''text'') = Some txt" and r: "predict_body ext txt = Inr r"
  from m have "(ustr ''text'', txt) \<in> set kvs" by (rule map_of_SomeD)
  then have k: "ustr ''text'' \<in> fst ` set kvs" by force
  then have "kvs \<noteq> []" by auto
  with k m r show ?thesis by (simp add: predict_def)
qed

text \<open>
  Claim C8 says that every request whose JSON body lacks a \<open>text\<close> field is answered with
  status 400 and the message \<open>No text provided\<close>. The check \<open>"text" not in data\<close> of the
  source is written for a JSON object. On a body that is a number or \<open>true\<close> it raises
  \<open>TypeError\<close>; on a string or a list that holds \<open>text\<close> it passes, and the subscript
  \<open>data["text"]\<close> raises. The handler has no \<open>try\<close>, so these requests end in a 500 of
  the framework, not in the 400 of the claim. The classifier is called in none of them.
\<close>

theorem predict_non_object_body_raises:
  "predict ext (PInt 5)
     = ([], Inl (TypeError (''argument of type '' @ CHR 0x27 # ''int'' @ CHR 0x27
                              # '' is not iterable'')))
   \<and> predict ext (PBool True)
     = ([], Inl (TypeError (''argument of type '' @ CHR 0x27 # ''bool'' @ CHR 0x27
                              # '' is not iterable'')))
   \<and> predict ext (PList [PStr (ustr ''text'')])
     = ([], Inl (TypeError ''list indices must be integers or slices, not str''))
   \<and> predict ext (PStr (ustr ''no text here''))
     = ([], Inl (TypeError (''string indices must be integers, not '' @ CHR 0x27
                              # ''str'' @ [CHR 0x27])))"
proof (intro conjI)
  show "predict ext (PInt 5)
     = ([], Inl (TypeError (''argument of type '' @ CHR 0x27 # ''int'' @ CHR 0x27
                              # '' is not iterable'')))"
    by (simp add: predict_def)
  show "predict ext (PBool True)
     = ([], Inl (TypeError (''argument of type '' @ CHR 0x27 # ''bool'' @ CHR 0x27
                              # '' is not iterable'')))"
    by (simp add: predict_def)
  show "predict ext (PList [PStr (ustr ''text'')])
     = ([], Inl (TypeError ''list indices must be integers or slices, not str''))"
    by (simp add: predict_def)
  have "contains (ustr ''text'') (ustr ''no text here'')" by code_simp
  moreover have "ustr ''no text here'' \<noteq> []" by (simp add: ustr_def)
  ultimately show "predict ext (PStr (ustr ''no text here''))
     = ([], Inl (TypeError (''string indices must be integers, not '' @ CHR 0x27
                              # ''str'' @ [CHR 0x27])))"
    by (simp add: predict_def)
qed

lemma fetch_gmail_caught:
  "fetch_gmail_try ext = (calls, Inl e) \<Longrightarrow>
     fetch_gmail ext = (calls, Response 500 (ErrorReply (str_error e)))"
  by (simp add: fetch_gmail_def)

lemma fetch_gmail_calls:
  "\<exists>i t. prefix (fst (fetch_gmail_try ext))
            [GetGmailService, ListUnread, GetMessage i, PredictBody t]"
proof (cases "get_gmail_service ext")
  case (Inl e)
  then show ?thesis by (simp add: fetch_gmail_try_def)
next
  case service: (Inr s)
  show ?thesis
  proof (cases "list_unread ext")
    case (Inl e)
    with service show ?thesis by (simp add: fetch_gmail_try_def)
  next
    case results: (Inr results)
    show ?thesis
    proof (cases "case messages results of None \<Rightarrow> [] | Some ms \<Rightarrow> ms")
      case Nil
      with service results show ?thesis by (simp add: fetch_gmail_try_def)
    next
      case (Cons m ms)
      show ?thesis
      proof (cases "get_message ext (ref_id m)")
        case (Inl e)
        with service results Cons show ?thesis by (simp add: fetch_gmail_try_def)
      next
        case msg: (Inr msg)
        show ?thesis
        proof (cases "payload msg")
          case None
          with service results Cons msg show ?thesis by (simp add: fetch_gmail_try_def)
        next
          case (Some p)
          show ?thesis
          proof (cases "extract_body p")
            case (Inl e)
            with service results Cons msg Some show ?thesis
              by (simp add: fetch_gmail_try_def)
          next
            case (Inr body_text)
            with service results Cons msg Some show ?thesis
              by (cases "predict_body ext (PStr (if body_text \<noteq> [] then body_text
                    else (case snippet msg of None \<Rightarrow> [] | Some s \<Rightarrow> s)))")
                (simp_all add: fetch_gmail_try_def Let_def)
          qed
        qed
      qed
    qed
  qed
qed

lemma fst_fetch_gmail: "fst (fetch_gmail ext) = fst (fetch_gmail_try ext)"
  by (simp add: fetch_gmail_def split: prod.splits sum.splits)

text \<open>
  Claim C9. When the mail service is reached and its list of unread messages is empty (no
  \<open>messages\<close> key, or an empty list), \<open>GET /fetch_gmail\<close> answers with status 404 and the
  message \<open>No unread emails found\<close>, having called the service and the listing and
  nothing else: the classifier is not called.
\<close>

theorem fetch_gmail_no_unread:
  "get_gmail_service ext = Inr service \<Longrightarrow> list_unread ext = Inr results \<Longrightarrow>
   messages results = None \<or> messages results = Some [] \<Longrightarrow>
     fetch_gmail ext
       = ([GetGmailService, ListUnread], Response 404 (ErrorReply ''No unread emails found''))
     \<and> (\<forall>t. PredictBody t \<notin> set (fst (fetch_gmail ext)))"
  by (auto simp: fetch_gmail_def fetch_gmail_try_def)

text \<open>
  The claim at a mailbox whose listing has no \<open>messages\<close> key.
\<close>

theorem fetch_gmail_no_unread_witness:
  "fetch_gmail
     \<lparr>predict_body = (\<lambda>t. Inr ()), get_gmail_service = Inr (),
      list_unread = Inr \<lparr>messages = None\<rparr>,
      get_message = (\<lambda>i. Inl (OtherException ''not found'')),
      html_unescape = (\<lambda>s. s)\<rparr>
     = ([GetGmailService, ListUnread], Response 404 (ErrorReply ''No unread emails found''))"
proof -
  let ?ext = "\<lparr>predict_body = (\<lambda>t. Inr ()), get_gmail_service = Inr (),
      list_unread = Inr \<lparr>messages = None\<rparr>,
      get_message = (\<lambda>i. Inl (OtherException ''not found'')),
      html_unescape = (\<lambda>s. s)\<rparr>"
  have s: "get_gmail_service ?ext = Inr ()" by simp
  have l: "list_unread ?ext = Inr \<lparr>messages = None\<rparr>" by simp
  have m: "messages \<lparr>messages = None\<rparr> = None
      \<or> messages \<lparr>messages = None\<rparr> = Some ([] :: message_ref list)" by simp
  from fetch_gmail_no_unread[OF s l m] show ?thesis by blast
qed

text \<open>
  Claim C10. Whatever raises inside \<open>GET /fetch_gmail\<close> is answered with status 500 and
  the exception's message, and nothing else: authentication, the listing, the fetch of the
  message, a message without payload, the extraction of the body, the classifier. Every
  exception that leaves the \<open>try\<close> block is caught. No call is made twice: the calls are
  an initial part of service, listing, one message, one classification.
\<close>

theorem fetch_gmail_exception_is_500:
  "(get_gmail_service ext = Inl e \<longrightarrow>
      fetch_gmail ext = ([GetGmailService], Response 500 (ErrorReply (str_error e))))
   \<and> (get_gmail_service ext = Inr service \<and> list_unread ext = Inl e \<longrightarrow>
      fetch_gmail ext
        = ([GetGmailService, ListUnread], Response 500 (ErrorReply (str_error e))))
   \<and> (get_gmail_service ext = Inr service \<and> list_unread ext = Inr results
        \<and> messages results = Some (m # ms) \<longrightarrow>
        (get_message ext (ref_id m) = Inl e \<longrightarrow>
           fetch_gmail ext
             = ([GetGmailService, ListUnread, GetMessage (ref_id m)],
                Response 500 (ErrorReply (str_error e))))
        \<and> (get_message ext (ref_id m) = Inr msg \<and> payload msg = None \<longrightarrow>
           fetch_gmail ext
             = ([GetGmailService, ListUnread, GetMessage (ref_id m)],
                Response 500 (ErrorReply (str_error (KeyError ''payload'')))))
        \<and> (get_message ext (ref_id m) = Inr msg \<and> payload msg = Some p
             \<and> extract_body p = Inl e \<longrightarrow>
           fetch_gmail ext
             = ([GetGmailService, ListUnread, GetMessage (ref_id m)],
                Response 500 (ErrorReply (str_error e))))
        \<and> (get_message ext (ref_id m) = Inr msg \<and> payload msg = Some p
             \<and> extract_body p = Inr body_text
             \<and> predict_body ext
                  (PStr (if body_text \<noteq> [] then body_text
                         else (case snippet msg of None \<Rightarrow> [] | Some s \<Rightarrow> s))) = Inl e \<longrightarrow>
           fetch_gmail ext
             = ([GetGmailService, ListUnread, GetMessage (ref_id m),
                 PredictBody (PStr (if body_text \<noteq> [] then body_text
                         else (case snippet msg of None \<Rightarrow> [] | Some s \<Rightarrow> s)))],
                Response 500 (ErrorReply (str_error e)))))
   \<and> (\<forall>calls e'. fetch_gmail_try ext = (calls, Inl e') \<longrightarrow>
        fetch_gmail ext = (calls, Response 500 (ErrorReply (str_error e'))))
   \<and> (\<exists>i t. prefix (fst (fetch_gmail ext))
                [GetGmailService, ListUnread, GetMessage i, PredictBody t])"
proof (intro conjI impI allI)
  assume "get_gmail_service ext = Inl e"
  then show "fetch_gmail ext = ([GetGmailService], Response 500 (ErrorReply (str_error e)))"
    by (simp add: fetch_gmail_def fetch_gmail_try_def)
next
  assume "get_gmail_service ext = Inr service \<and> list_unread ext = Inl e"
  then show "fetch_gmail ext
        = ([GetGmailService, ListUnread], Response 500 (ErrorReply (str_error e)))"
    by (simp add: fetch_gmail_def fetch_gmail_try_def)
next
  assume h: "get_gmail_service ext = Inr service \<and> list_unread ext = Inr results
        \<and> messages results = Some (m # ms)"
    and g: "get_message ext (ref_id m) = Inl e"
  then show "fetch_gmail ext
             = ([GetGmailService, ListUnread, GetMessage (ref_id m)],
                Response 500 (ErrorReply (str_error e)))"
    by (simp add: fetch_gmail_def fetch_gmail_try_def)
next
  assume h: "get_gmail_service ext = Inr service \<and> list_unread ext = Inr results
        \<and> messages results = Some (m # ms)"
    and g: "get_message ext (ref_id m) = Inr msg \<and> payload msg = None"
  then show "fetch_gmail ext
             = ([GetGmailService, ListUnread, GetMessage (ref_id m)],
                Response 500 (ErrorReply (str_error (KeyError ''payload''))))"
    by (simp add: fetch_gmail_def fetch_gmail_try_def)
next
  assume h: "get_gmail_service ext = Inr service \<and> list_unread ext = Inr results
        \<and> messages results = Some (m # ms)"
    and g: "get_message ext (ref_id m) = Inr msg \<and> payload msg = Some p
             \<and> extract_body p = Inl e"
  then show "fetch_gmail ext
             = ([GetGmailService, ListUnread, GetMessage (ref_id m)],
                Response 500 (ErrorReply (str_error e)))"
    by (simp add: fetch_gmail_def fetch_gmail_try_def)
next
  assume h: "get_gmail_service ext = Inr service \<and> list_unread ext = Inr results
        \<and> messages results = Some (m # ms)"
    and g: "get_message ext (ref_id m) = Inr msg \<and> payload msg = Some p
             \<and> extract_body p = Inr body_text
             \<and> predict_body ext
                  (PStr (if body_text \<noteq> [] then body_text
                         else (case snippet msg of None \<Rightarrow> [] | Some s \<Rightarrow> s))) = Inl e"
  then show "fetch_gmail ext
             = ([GetGmailService, ListUnread, GetMessage (ref_id m),
                 PredictBody (PStr (if body_text \<noteq> [] then body_text
                         else (case snippet msg of None \<Rightarrow> [] | Some s \<Rightarrow> s)))],
                Response 500 (ErrorReply (str_error e)))"
    by (simp add: fetch_gmail_def fetch_gmail_try_def Let_def)
next
  fix calls e'
  assume "fetch_gmail_try ext = (calls, Inl e')"
  then show "fetch_gmail ext = (calls, Response 500 (ErrorReply (str_error e')))"
    by (rule fetch_gmail_caught)
next
  show "\<exists>i t. prefix (fst (fetch_gmail ext))
                [GetGmailService, ListUnread, GetMessage i, PredictBody t]"
    unfolding fst_fetch_gmail by (rule fetch_gmail_calls)
qed

text \<open>
  The claim at a mailbox whose unread message has a plain-text part with unpadded base64
  data: the decoder's exception becomes the 500, and the classifier is not reached. And at
  a failing authentication.
\<close>

theorem fetch_gmail_exception_is_500_witness:
  "fetch_gmail
     \<lparr>predict_body = (\<lambda>t. Inr ()), get_gmail_service = Inr (),
      list_unread = Inr \<lparr>messages = Some [\<lparr>ref_id = ''18c2''\<rparr>]\<rparr>,
      get_message = (\<lambda>i. Inr \<lparr>snippet = Some (ustr ''hello''),
         payload = Some (Payload (Some ''multipart/alternative'') None (Some \<lparr>data = None\<rparr>)
           (Some [Payload (Some ''text/plain'') None
                    (Some \<lparr>data = Some ''aGVsbG8''\<rparr>) None]))\<rparr>),
      html_unescape = (\<lambda>s. s)\<rparr>
     = ([GetGmailService, ListUnread, GetMessage ''18c2''],
        Response 500 (ErrorReply ''Incorrect padding''))
   \<and> fetch_gmail
     \<lparr>predict_body = (\<lambda>t. Inr ()),
      get_gmail_service = Inl (OtherException ''credentials.json not found''),
      list_unread = Inr \<lparr>messages = None\<rparr>,
      get_message = (\<lambda>i. Inl (OtherException ''not found'')),
      html_unescape = (\<lambda>s. s)\<rparr>
     = ([GetGmailService], Response 500 (ErrorReply ''credentials.json not found''))"
proof -
  let ?p = "Payload (Some ''multipart/alternative'') None (Some \<lparr>data = None\<rparr>)
           (Some [Payload (Some ''text/plain'') None
                    (Some \<lparr>data = Some ''aGVsbG8''\<rparr>) None])"
  let ?msg = "\<lparr>snippet = Some (ustr ''hello''), payload = Some ?p\<rparr>"
  let ?ext = "\<lparr>predict_body = (\<lambda>t. Inr ()), get_gmail_service = Inr (),
      list_unread = Inr \<lparr>messages = Some [\<lparr>ref_id = ''18c2''\<rparr>]\<rparr>,
      get_message = (\<lambda>i. Inr ?msg),
      html_unescape = (\<lambda>s. s)\<rparr>"
  let ?auth = "\<lparr>predict_body = (\<lambda>t. Inr ()),
      get_gmail_service = Inl (OtherException ''credentials.json not found''),
      list_unread = Inr \<lparr>messages = None\<rparr>,
      get_message = (\<lambda>i. Inl (OtherException ''not found'')),
      html_unescape = (\<lambda>s. s)\<rparr>"
  let ?e = "BinasciiError ''Incorrect padding''"
  have x: "extract_body ?p = Inl ?e" by code_simp
  have h: "get_gmail_service ?ext = Inr ()
      \<and> list_unread ?ext = Inr \<lparr>messages = Some [\<lparr>ref_id = ''18c2''\<rparr>]\<rparr>
      \<and> messages \<lparr>messages = Some [\<lparr>ref_id = ''18c2''\<rparr>]\<rparr> = Some (\<lparr>ref_id = ''18c2''\<rparr> # [])"
    by simp
  have g: "get_message ?ext (ref_id \<lparr>ref_id = ''18c2''\<rparr>) = Inr ?msg \<and> payload ?msg = Some ?p
      \<and> extract_body ?p = Inl ?e"
    using x by simp
  from fetch_gmail_exception_is_500[of ?ext ?e "()"
      "\<lparr>messages = Some [\<lparr>ref_id = ''18c2''\<rparr>]\<rparr>" "\<lparr>ref_id = ''18c2''\<rparr>" "[]" ?msg ?p "[]"] h g
  have a: "fetch_gmail ?ext
     = ([GetGmailService, ListUnread, GetMessage (ref_id \<lparr>ref_id = ''18c2''\<rparr>)],
        Response 500 (ErrorReply (str_error ?e)))"
    by blast
  have "get_gmail_service ?auth = Inl (OtherException ''credentials.json not found'')"
    by simp
  with fetch_gmail_exception_is_500[of ?auth "OtherException ''credentials.json not found''"]
  have b: "fetch_gmail ?auth
     = ([GetGmailService],
        Response 500 (ErrorReply (str_error (OtherException ''credentials.json not found''))))"
    by blast
  from a b show ?thesis by simp
qed

end
